theory Spec2Isabelle
  imports Main
begin

section \<open>The version constants of \<^verbatim>\<open>version.h\<close>\<close>

text \<open>
  Modelled from the spec: \<^verbatim>\<open>version.h\<close> is generated at build time and is not among the
  sources, so the four macros \<^verbatim>\<open>main.cpp\<close> reads are the fields of a record that the
  program takes as a parameter. The spec's data model gives their types: the combined
  display string and three integers. The integers are mathematical: an integer literal of
  C++ takes the first of \<^verbatim>\<open>int\<close>, \<^verbatim>\<open>long\<close>, \<^verbatim>\<open>long long\<close> that holds it, and the stream
  prints its value.
\<close>

record VersionDescriptor =
  PROJECT_VERSION :: string
  PROJECT_VERSION_MAJOR :: int
  PROJECT_VERSION_MINOR :: int
  PROJECT_VERSION_PATCH :: int

section \<open>The output stream\<close>

text \<open>
  \<^verbatim>\<open>std::cout\<close> is the sequence of bytes inserted so far. The stream is in its initial
  formatting state (decimal, no width, no fill, the classic locale with no digit grouping),
  which \<^verbatim>\<open>main\<close> never changes.
\<close>

type_synonym ostream = string

definition newline :: char where
  "newline = CHR 0x0A"

definition digit_char :: "nat \<Rightarrow> char" where
  "digit_char d = ''0123456789'' ! d"

fun show_nat :: "nat \<Rightarrow> string" where
  "show_nat n = (if n < 10 then [digit_char n] else show_nat (n div 10) @ [digit_char (n mod 10)])"

declare show_nat.simps [simp del]

definition show_int :: "int \<Rightarrow> string" where
  "show_int i = (if i < 0 then CHR ''-'' # show_nat (nat (- i)) else show_nat (nat i))"

text \<open>\<^verbatim>\<open>operator<<(const char*)\<close>: the characters, as they are.\<close>

definition put_str :: "string \<Rightarrow> ostream \<Rightarrow> ostream" where
  "put_str s os = os @ s"

text \<open>\<^verbatim>\<open>operator<<(int)\<close>: the value in decimal, with a minus sign when negative.\<close>

definition put_int :: "int \<Rightarrow> ostream \<Rightarrow> ostream" where
  "put_int i os = os @ show_int i"

text \<open>\<^verbatim>\<open>std::endl\<close>: a line feed, then a flush, which leaves the byte sequence alone.\<close>

definition endl :: "ostream \<Rightarrow> ostream" where
  "endl os = os @ [newline]"

section \<open>The program\<close>

text \<open>
  \<^verbatim>\<open>main\<close> of \<^verbatim>\<open>examples/basic_usage/main.cpp\<close>: six statements on \<^verbatim>\<open>std::cout\<close>, then
  \<^verbatim>\<open>return 0\<close>. The result is the exit status and the stream.
\<close>

definition main :: "VersionDescriptor \<Rightarrow> ostream \<Rightarrow> int \<times> ostream" where
  "main v cout0 =
    (let cout1 = endl (put_str ''Basic Example Application'' cout0);
         cout2 = endl (put_str ''------------------------'' cout1);
         cout3 = endl (put_str (PROJECT_VERSION v) (put_str ''Version: '' cout2));
         cout4 = endl (put_int (PROJECT_VERSION_MAJOR v) (put_str ''Major: '' cout3));
         cout5 = endl (put_int (PROJECT_VERSION_MINOR v) (put_str ''Minor: '' cout4));
         cout6 = endl (put_int (PROJECT_VERSION_PATCH v) (put_str ''Patch: '' cout5))
     in (0, cout6))"

text \<open>
  The entry point is declared \<^verbatim>\<open>int main()\<close>: the argument vector the system hands to the
  process has no name in the program. A process starts with nothing written.
\<close>

definition invoke :: "string list \<Rightarrow> VersionDescriptor \<Rightarrow> int \<times> ostream" where
  "invoke argv v = main v []"

section \<open>Reading the output back\<close>

text \<open>
  The program only writes. To speak of the lines of its output and of the numbers in the
  Version line, the text is cut again at a separator: a scan with the current piece
  accumulated in reverse.
\<close>

fun split_acc :: "char \<Rightarrow> string \<Rightarrow> string \<Rightarrow> string list" where
  "split_acc sep acc [] = [rev acc]"
| "split_acc sep acc (c # cs) =
     (if c = sep then rev acc # split_acc sep [] cs else split_acc sep (c # acc) cs)"

definition split_on :: "char \<Rightarrow> string \<Rightarrow> string list" where
  "split_on sep s = split_acc sep [] s"

text \<open>The lines of a text: the pieces between line feeds, a last line feed ending the last line.\<close>

definition lines_of :: "string \<Rightarrow> string list" where
  "lines_of s = (let ps = split_on newline s in if last ps = [] then butlast ps else ps)"

text \<open>
  The spec's data model, in its words: the conventional display string is the three
  numbers, dotted; a descriptor is consistent when its display string is that one, and
  valid when, moreover, no number is negative.
\<close>

definition dotted :: "VersionDescriptor \<Rightarrow> string" where
  "dotted v = show_int (PROJECT_VERSION_MAJOR v) @ ''.'' @ show_int (PROJECT_VERSION_MINOR v)
     @ ''.'' @ show_int (PROJECT_VERSION_PATCH v)"

definition consistent :: "VersionDescriptor \<Rightarrow> bool" where
  "consistent v = (PROJECT_VERSION v = dotted v)"

definition valid :: "VersionDescriptor \<Rightarrow> bool" where
  "valid v = (0 \<le> PROJECT_VERSION_MAJOR v \<and> 0 \<le> PROJECT_VERSION_MINOR v
     \<and> 0 \<le> PROJECT_VERSION_PATCH v \<and> consistent v)"

text \<open>A text from its lines: every line followed by a line feed.\<close>

definition unlines :: "string list \<Rightarrow> string" where
  "unlines ls = concat (map (\<lambda>l. l @ [newline]) ls)"

definition is_digit :: "char \<Rightarrow> bool" where
  "is_digit c = (c \<in> set ''0123456789'')"

section \<open>Decimal numerals\<close>

lemma is_digit_digit_char: "d < 10 \<Longrightarrow> is_digit (digit_char d)"
  unfolding is_digit_def digit_char_def by (rule nth_mem) simp

lemma show_nat_digits: "list_all is_digit (show_nat n)"
proof (induction n rule: show_nat.induct)
  case (1 n)
  show ?case
  proof (cases "n < 10")
    case True
    then show ?thesis
      by (subst show_nat.simps) (simp add: is_digit_digit_char)
  next
    case False
    have "n mod 10 < 10" by simp
    then have "is_digit (digit_char (n mod 10))" by (rule is_digit_digit_char)
    with 1 False show ?thesis
      by (subst show_nat.simps) simp
  qed
qed

lemma show_int_chars:
  assumes "\<not> is_digit c" and "c \<noteq> CHR ''-''"
  shows "c \<notin> set (show_int i)"
proof
  assume "c \<in> set (show_int i)"
  then have "c \<in> set (show_nat (nat (- i))) \<or> c \<in> set (show_nat (nat i))"
    using assms(2) by (auto simp: show_int_def split: if_splits)
  then have "is_digit c"
    using show_nat_digits by (auto simp: list_all_iff)
  with assms(1) show False by simp
qed

lemma newline_notin_show_int: "newline \<notin> set (show_int i)"
  by (rule show_int_chars) (simp_all add: is_digit_def newline_def)

lemma dot_notin_show_int: "CHR ''.'' \<notin> set (show_int i)"
  by (rule show_int_chars) (simp_all add: is_digit_def)

lemma newline_notin_dotted: "newline \<notin> set (dotted v)"
  using newline_notin_show_int by (simp add: dotted_def newline_def)

section \<open>Splitting\<close>

lemma split_acc_piece:
  "sep \<notin> set l \<Longrightarrow> split_acc sep acc (l @ sep # rest) = (rev acc @ l) # split_acc sep [] rest"
  by (induction l arbitrary: acc) auto

lemma split_acc_whole: "sep \<notin> set l \<Longrightarrow> split_acc sep acc l = [rev acc @ l]"
  by (induction l arbitrary: acc) auto

lemma split_acc_nonempty: "split_acc sep acc s \<noteq> []"
  by (induction s arbitrary: acc) auto

lemma split_on_three:
  assumes "sep \<notin> set a" and "sep \<notin> set b" and "sep \<notin> set c"
  shows "split_on sep (a @ [sep] @ b @ [sep] @ c) = [a, b, c]"
  using assms by (simp add: split_on_def split_acc_piece split_acc_whole)

lemma lines_of_Nil: "lines_of [] = []"
  by (simp add: lines_of_def split_on_def)

lemma lines_of_line:
  assumes "newline \<notin> set l"
  shows "lines_of (l @ newline # rest) = l # lines_of rest"
proof -
  have "split_on newline (l @ newline # rest) = l # split_on newline rest"
    using assms by (simp add: split_on_def split_acc_piece)
  moreover have "split_on newline rest \<noteq> []"
    by (simp add: split_on_def split_acc_nonempty)
  ultimately show ?thesis
    by (simp add: lines_of_def Let_def)
qed

lemma lines_of_unlines:
  "list_all (\<lambda>l. newline \<notin> set l) ls \<Longrightarrow> lines_of (unlines ls) = ls"
proof (induction ls)
  case Nil
  show ?case by (simp add: unlines_def lines_of_Nil)
next
  case (Cons l ls)
  have "unlines (l # ls) = l @ newline # unlines ls"
    by (simp add: unlines_def)
  with Cons show ?case
    by (simp add: lines_of_line)
qed

section \<open>The output of a run\<close>

lemma main_unfolded:
  "main v c = (0, c @ ''Basic Example Application'' @ [newline]
      @ ''------------------------'' @ [newline]
      @ ''Version: '' @ PROJECT_VERSION v @ [newline]
      @ ''Major: '' @ show_int (PROJECT_VERSION_MAJOR v) @ [newline]
      @ ''Minor: '' @ show_int (PROJECT_VERSION_MINOR v) @ [newline]
      @ ''Patch: '' @ show_int (PROJECT_VERSION_PATCH v) @ [newline])"
  by (simp add: main_def put_str_def put_int_def endl_def)

lemma main_unlines:
  "main v c = (0, c @ unlines
     [''Basic Example Application'', ''------------------------'',
      ''Version: '' @ PROJECT_VERSION v,
      ''Major: '' @ show_int (PROJECT_VERSION_MAJOR v),
      ''Minor: '' @ show_int (PROJECT_VERSION_MINOR v),
      ''Patch: '' @ show_int (PROJECT_VERSION_PATCH v)])"
  by (simp add: main_unfolded unlines_def)

lemma main_lines:
  assumes "newline \<notin> set (PROJECT_VERSION v)"
  shows "lines_of (snd (main v [])) =
     [''Basic Example Application'', ''------------------------'',
      ''Version: '' @ PROJECT_VERSION v,
      ''Major: '' @ show_int (PROJECT_VERSION_MAJOR v),
      ''Minor: '' @ show_int (PROJECT_VERSION_MINOR v),
      ''Patch: '' @ show_int (PROJECT_VERSION_PATCH v)]"
proof -
  have "list_all (\<lambda>l. newline \<notin> set l)
     [''Basic Example Application'', ''------------------------'',
      ''Version: '' @ PROJECT_VERSION v,
      ''Major: '' @ show_int (PROJECT_VERSION_MAJOR v),
      ''Minor: '' @ show_int (PROJECT_VERSION_MINOR v),
      ''Patch: '' @ show_int (PROJECT_VERSION_PATCH v)]"
    using assms newline_notin_show_int by (simp add: newline_def)
  then show ?thesis
    unfolding main_unlines snd_conv append_Nil by (rule lines_of_unlines)
qed

lemma show_nat_digit: "n < 10 \<Longrightarrow> show_nat n = [digit_char n]"
  by (subst show_nat.simps) simp

section \<open>The claims\<close>

text \<open>
  C1. For every valid descriptor (three non-negative integers M, N, P and the display
  string "M.N.P"), the output of a run has exactly six lines, in this order: the title
  "Basic Example Application", the separator, "Version: " and the display string,
  "Major: " and the major number, "Minor: " and the minor number, "Patch: " and the patch
  number.
\<close>

theorem report_six_lines:
  assumes "valid v"
  shows "length (lines_of (snd (main v []))) = 6 \<and>
    lines_of (snd (main v [])) =
     [''Basic Example Application'', ''------------------------'',
      ''Version: '' @ PROJECT_VERSION v,
      ''Major: '' @ show_int (PROJECT_VERSION_MAJOR v),
      ''Minor: '' @ show_int (PROJECT_VERSION_MINOR v),
      ''Patch: '' @ show_int (PROJECT_VERSION_PATCH v)]"
proof -
  from assms have "PROJECT_VERSION v = dotted v"
    by (simp add: valid_def consistent_def)
  then have "newline \<notin> set (PROJECT_VERSION v)"
    by (simp add: newline_notin_dotted)
  then show ?thesis
    by (simp add: main_lines)
qed

theorem report_six_lines_witness:
  "valid \<lparr>PROJECT_VERSION = ''0.0.0'', PROJECT_VERSION_MAJOR = 0,
        PROJECT_VERSION_MINOR = 0, PROJECT_VERSION_PATCH = 0\<rparr> \<and>
   lines_of (snd (main \<lparr>PROJECT_VERSION = ''0.0.0'', PROJECT_VERSION_MAJOR = 0,
        PROJECT_VERSION_MINOR = 0, PROJECT_VERSION_PATCH = 0\<rparr> [])) =
     [''Basic Example Application'', ''------------------------'',
      ''Version: 0.0.0'', ''Major: 0'', ''Minor: 0'', ''Patch: 0'']"
proof -
  have h: "valid \<lparr>PROJECT_VERSION = ''0.0.0'', PROJECT_VERSION_MAJOR = 0,
        PROJECT_VERSION_MINOR = 0, PROJECT_VERSION_PATCH = 0\<rparr>"
    by (simp add: valid_def consistent_def dotted_def show_int_def show_nat_digit digit_char_def)
  show ?thesis
    using h report_six_lines [OF h] by (simp add: show_int_def show_nat_digit digit_char_def)
qed

text \<open>
  C2, as amended. A run writes six lines, not five: for every descriptor the output is
  the six items in their fixed order, each followed by a line feed, and it reads back as
  exactly those six lines whenever the display string holds no line feed.
\<close>

theorem report_line_count:
  "(let report =
     [''Basic Example Application'', ''------------------------'',
      ''Version: '' @ PROJECT_VERSION v,
      ''Major: '' @ show_int (PROJECT_VERSION_MAJOR v),
      ''Minor: '' @ show_int (PROJECT_VERSION_MINOR v),
      ''Patch: '' @ show_int (PROJECT_VERSION_PATCH v)]
    in snd (main v []) = unlines report \<and> length report = 6 \<and>
      (newline \<notin> set (PROJECT_VERSION v) \<longrightarrow> lines_of (snd (main v [])) = report))"
  unfolding Let_def
proof (intro conjI impI)
  show "snd (main v []) = unlines
     [''Basic Example Application'', ''------------------------'',
      ''Version: '' @ PROJECT_VERSION v,
      ''Major: '' @ show_int (PROJECT_VERSION_MAJOR v),
      ''Minor: '' @ show_int (PROJECT_VERSION_MINOR v),
      ''Patch: '' @ show_int (PROJECT_VERSION_PATCH v)]"
    by (simp add: main_unlines)
next
  show "length
     [''Basic Example Application'', ''------------------------'',
      ''Version: '' @ PROJECT_VERSION v,
      ''Major: '' @ show_int (PROJECT_VERSION_MAJOR v),
      ''Minor: '' @ show_int (PROJECT_VERSION_MINOR v),
      ''Patch: '' @ show_int (PROJECT_VERSION_PATCH v)] = 6"
    by simp
next
  assume "newline \<notin> set (PROJECT_VERSION v)"
  then show "lines_of (snd (main v [])) =
     [''Basic Example Application'', ''------------------------'',
      ''Version: '' @ PROJECT_VERSION v,
      ''Major: '' @ show_int (PROJECT_VERSION_MAJOR v),
      ''Minor: '' @ show_int (PROJECT_VERSION_MINOR v),
      ''Patch: '' @ show_int (PROJECT_VERSION_PATCH v)]"
    by (rule main_lines)
qed

theorem report_line_count_witness:
  "newline \<notin> set ''1.4.0-rc1'' \<and>
   lines_of (snd (main \<lparr>PROJECT_VERSION = ''1.4.0-rc1'', PROJECT_VERSION_MAJOR = 1,
        PROJECT_VERSION_MINOR = 4, PROJECT_VERSION_PATCH = 0\<rparr> [])) =
     [''Basic Example Application'', ''------------------------'',
      ''Version: 1.4.0-rc1'', ''Major: 1'', ''Minor: 4'', ''Patch: 0'']"
proof -
  let ?d = "\<lparr>PROJECT_VERSION = ''1.4.0-rc1'', PROJECT_VERSION_MAJOR = 1,
        PROJECT_VERSION_MINOR = 4, PROJECT_VERSION_PATCH = 0\<rparr>"
  have h: "newline \<notin> set (PROJECT_VERSION ?d)"
    by (simp add: newline_def)
  from report_line_count [of ?d] have "newline \<notin> set (PROJECT_VERSION ?d) \<longrightarrow>
    lines_of (snd (main ?d [])) =
     [''Basic Example Application'', ''------------------------'',
      ''Version: '' @ PROJECT_VERSION ?d,
      ''Major: '' @ show_int (PROJECT_VERSION_MAJOR ?d),
      ''Minor: '' @ show_int (PROJECT_VERSION_MINOR ?d),
      ''Patch: '' @ show_int (PROJECT_VERSION_PATCH ?d)]"
    unfolding Let_def by (elim conjE)
  with h have "lines_of (snd (main ?d [])) =
     [''Basic Example Application'', ''------------------------'',
      ''Version: '' @ PROJECT_VERSION ?d,
      ''Major: '' @ show_int (PROJECT_VERSION_MAJOR ?d),
      ''Minor: '' @ show_int (PROJECT_VERSION_MINOR ?d),
      ''Patch: '' @ show_int (PROJECT_VERSION_PATCH ?d)]"
    by (rule rev_mp)
  with h show ?thesis
    by (simp add: show_int_def show_nat_digit digit_char_def)
qed

theorem five_lines_counterexample:
  "length (lines_of (snd (main \<lparr>PROJECT_VERSION = ''1.2.3'', PROJECT_VERSION_MAJOR = 1,
        PROJECT_VERSION_MINOR = 2, PROJECT_VERSION_PATCH = 3\<rparr> []))) \<noteq> 5"
proof -
  have "newline \<notin> set (PROJECT_VERSION \<lparr>PROJECT_VERSION = ''1.2.3'', PROJECT_VERSION_MAJOR = 1,
        PROJECT_VERSION_MINOR = 2, PROJECT_VERSION_PATCH = 3\<rparr>)"
    by (simp add: newline_def)
  then show ?thesis
    by (simp add: main_lines)
qed

text \<open>
  C3. For the descriptor (1, 2, 3) with the display string "1.2.3", the output is exactly
  the block of the lines "Basic Example Application", the separator, "Version: 1.2.3",
  "Major: 1", "Minor: 2", "Patch: 3".
\<close>

theorem report_1_2_3:
  "snd (main \<lparr>PROJECT_VERSION = ''1.2.3'', PROJECT_VERSION_MAJOR = 1,
        PROJECT_VERSION_MINOR = 2, PROJECT_VERSION_PATCH = 3\<rparr> []) = unlines
     [''Basic Example Application'', ''------------------------'',
      ''Version: 1.2.3'', ''Major: 1'', ''Minor: 2'', ''Patch: 3''] \<and>
   lines_of (snd (main \<lparr>PROJECT_VERSION = ''1.2.3'', PROJECT_VERSION_MAJOR = 1,
        PROJECT_VERSION_MINOR = 2, PROJECT_VERSION_PATCH = 3\<rparr> [])) =
     [''Basic Example Application'', ''------------------------'',
      ''Version: 1.2.3'', ''Major: 1'', ''Minor: 2'', ''Patch: 3'']"
proof -
  have "newline \<notin> set (PROJECT_VERSION \<lparr>PROJECT_VERSION = ''1.2.3'', PROJECT_VERSION_MAJOR = 1,
        PROJECT_VERSION_MINOR = 2, PROJECT_VERSION_PATCH = 3\<rparr>)"
    by (simp add: newline_def)
  then have "lines_of (snd (main \<lparr>PROJECT_VERSION = ''1.2.3'', PROJECT_VERSION_MAJOR = 1,
        PROJECT_VERSION_MINOR = 2, PROJECT_VERSION_PATCH = 3\<rparr> [])) =
     [''Basic Example Application'', ''------------------------'',
      ''Version: 1.2.3'', ''Major: 1'', ''Minor: 2'', ''Patch: 3'']"
    by (simp add: main_lines show_int_def show_nat_digit digit_char_def)
  then show ?thesis
    by (simp add: main_unlines show_int_def show_nat_digit digit_char_def)
qed

text \<open>
  C4. For every descriptor, whatever was written before and whatever the arguments of the
  process, the run writes the whole report and then ends with exit status 0; no other
  status is produced.
\<close>

theorem exit_status_zero:
  "main v c = (0, c @ unlines
     [''Basic Example Application'', ''------------------------'',
      ''Version: '' @ PROJECT_VERSION v,
      ''Major: '' @ show_int (PROJECT_VERSION_MAJOR v),
      ''Minor: '' @ show_int (PROJECT_VERSION_MINOR v),
      ''Patch: '' @ show_int (PROJECT_VERSION_PATCH v)]) \<and>
   invoke argv v = (0, unlines
     [''Basic Example Application'', ''------------------------'',
      ''Version: '' @ PROJECT_VERSION v,
      ''Major: '' @ show_int (PROJECT_VERSION_MAJOR v),
      ''Minor: '' @ show_int (PROJECT_VERSION_MINOR v),
      ''Patch: '' @ show_int (PROJECT_VERSION_PATCH v)]) \<and>
   fst (main v c) = 0 \<and> fst (invoke argv v) = 0"
proof -
  have m: "main v c = (0, c @ unlines
     [''Basic Example Application'', ''------------------------'',
      ''Version: '' @ PROJECT_VERSION v,
      ''Major: '' @ show_int (PROJECT_VERSION_MAJOR v),
      ''Minor: '' @ show_int (PROJECT_VERSION_MINOR v),
      ''Patch: '' @ show_int (PROJECT_VERSION_PATCH v)])"
    by (rule main_unlines)
  have i: "invoke argv v = (0, unlines
     [''Basic Example Application'', ''------------------------'',
      ''Version: '' @ PROJECT_VERSION v,
      ''Major: '' @ show_int (PROJECT_VERSION_MAJOR v),
      ''Minor: '' @ show_int (PROJECT_VERSION_MINOR v),
      ''Patch: '' @ show_int (PROJECT_VERSION_PATCH v)])"
    unfolding invoke_def main_unlines by simp
  from m i show ?thesis
    by simp
qed

text \<open>
  C5. Two runs with the same descriptor write the same bytes and end with the same
  status: what a run appends to the stream depends on the descriptor alone, not on what
  the stream held before.
\<close>

theorem report_deterministic:
  "fst (main v c1) = fst (main v c2) \<and>
   drop (length c1) (snd (main v c1)) = drop (length c2) (snd (main v c2))"
  by (simp add: main_unlines)

text \<open>
  C6. No field is validated and there is no error path: for every descriptor, negative
  numbers and a malformed display string included, the run goes through the same six
  writes and ends with status 0, with the whole report written.
\<close>

theorem no_validation:
  "main v c = (0, c @ unlines
     [''Basic Example Application'', ''------------------------'',
      ''Version: '' @ PROJECT_VERSION v,
      ''Major: '' @ show_int (PROJECT_VERSION_MAJOR v),
      ''Minor: '' @ show_int (PROJECT_VERSION_MINOR v),
      ''Patch: '' @ show_int (PROJECT_VERSION_PATCH v)]) \<and>
   main \<lparr>PROJECT_VERSION = ''not a version'', PROJECT_VERSION_MAJOR = - 1,
        PROJECT_VERSION_MINOR = 0, PROJECT_VERSION_PATCH = - 20\<rparr> [] = (0, unlines
     [''Basic Example Application'', ''------------------------'',
      ''Version: not a version'', ''Major: -1'', ''Minor: 0'', ''Patch: -20''])"
proof
  show "main v c = (0, c @ unlines
     [''Basic Example Application'', ''------------------------'',
      ''Version: '' @ PROJECT_VERSION v,
      ''Major: '' @ show_int (PROJECT_VERSION_MAJOR v),
      ''Minor: '' @ show_int (PROJECT_VERSION_MINOR v),
      ''Patch: '' @ show_int (PROJECT_VERSION_PATCH v)])"
    by (rule main_unlines)
next
  have "show_int (- 1) = ''-1''" and "show_int 0 = ''0''" and "show_int (- 20) = ''-20''"
    by (simp_all add: show_int_def show_nat.simps digit_char_def)
  then show "main \<lparr>PROJECT_VERSION = ''not a version'', PROJECT_VERSION_MAJOR = - 1,
        PROJECT_VERSION_MINOR = 0, PROJECT_VERSION_PATCH = - 20\<rparr> [] = (0, unlines
     [''Basic Example Application'', ''------------------------'',
      ''Version: not a version'', ''Major: -1'', ''Minor: 0'', ''Patch: -20''])"
    by (simp add: main_unlines)
qed

text \<open>
  C7. When the display string is the three numbers, dotted, the Version line agrees with
  the three lines after it: what follows "Version: ", cut at the dots, is the three
  numerals that follow "Major: ", "Minor: " and "Patch: ".
\<close>

theorem version_line_consistent:
  assumes "consistent v"
  shows "(let ls = lines_of (snd (main v [])) in
     take 9 (ls ! 2) = ''Version: '' \<and>
     take 7 (ls ! 3) = ''Major: '' \<and> take 7 (ls ! 4) = ''Minor: '' \<and>
     take 7 (ls ! 5) = ''Patch: '' \<and>
     split_on (CHR ''.'') (drop 9 (ls ! 2)) =
       [drop 7 (ls ! 3), drop 7 (ls ! 4), drop 7 (ls ! 5)])"
proof -
  from assms have pv: "PROJECT_VERSION v = dotted v"
    by (simp add: consistent_def)
  then have "newline \<notin> set (PROJECT_VERSION v)"
    by (simp add: newline_notin_dotted)
  then have ls: "lines_of (snd (main v [])) =
     [''Basic Example Application'', ''------------------------'',
      ''Version: '' @ PROJECT_VERSION v,
      ''Major: '' @ show_int (PROJECT_VERSION_MAJOR v),
      ''Minor: '' @ show_int (PROJECT_VERSION_MINOR v),
      ''Patch: '' @ show_int (PROJECT_VERSION_PATCH v)]"
    by (rule main_lines)
  have "split_on (CHR ''.'') (dotted v) =
     [show_int (PROJECT_VERSION_MAJOR v), show_int (PROJECT_VERSION_MINOR v),
      show_int (PROJECT_VERSION_PATCH v)]"
    unfolding dotted_def by (rule split_on_three) (rule dot_notin_show_int)+
  with pv show ?thesis
    by (simp add: ls)
qed

theorem version_line_consistent_witness:
  "consistent \<lparr>PROJECT_VERSION = ''4.7.10'', PROJECT_VERSION_MAJOR = 4,
        PROJECT_VERSION_MINOR = 7, PROJECT_VERSION_PATCH = 10\<rparr> \<and>
   split_on (CHR ''.'') (drop 9 (lines_of (snd (main \<lparr>PROJECT_VERSION = ''4.7.10'', PROJECT_VERSION_MAJOR = 4,
        PROJECT_VERSION_MINOR = 7, PROJECT_VERSION_PATCH = 10\<rparr> [])) ! 2)) =
     [''4'', ''7'', ''10'']"
proof -
  have h: "consistent \<lparr>PROJECT_VERSION = ''4.7.10'', PROJECT_VERSION_MAJOR = 4,
        PROJECT_VERSION_MINOR = 7, PROJECT_VERSION_PATCH = 10\<rparr>"
    by (simp add: consistent_def dotted_def show_int_def show_nat.simps digit_char_def)
  have "lines_of (snd (main \<lparr>PROJECT_VERSION = ''4.7.10'', PROJECT_VERSION_MAJOR = 4,
        PROJECT_VERSION_MINOR = 7, PROJECT_VERSION_PATCH = 10\<rparr> [])) ! 5 = ''Patch: 10''"
    by (simp add: main_lines newline_def show_int_def show_nat.simps digit_char_def)
  moreover have "lines_of (snd (main \<lparr>PROJECT_VERSION = ''4.7.10'', PROJECT_VERSION_MAJOR = 4,
        PROJECT_VERSION_MINOR = 7, PROJECT_VERSION_PATCH = 10\<rparr> [])) ! 4 = ''Minor: 7''"
    by (simp add: main_lines newline_def show_int_def show_nat.simps digit_char_def)
  moreover have "lines_of (snd (main \<lparr>PROJECT_VERSION = ''4.7.10'', PROJECT_VERSION_MAJOR = 4,
        PROJECT_VERSION_MINOR = 7, PROJECT_VERSION_PATCH = 10\<rparr> [])) ! 3 = ''Major: 4''"
    by (simp add: main_lines newline_def show_int_def show_nat.simps digit_char_def)
  ultimately show ?thesis
    using h version_line_consistent [OF h] by (simp add: Let_def)
qed

text \<open>
  C8. The arguments of the process are not read: two invocations with the same descriptor
  and different argument vectors give the same output and the same exit status.
\<close>

theorem arguments_ignored:
  "invoke argv1 v = invoke argv2 v"
  by (simp add: invoke_def)

text \<open>
  C9. The second line of the output, the separator, is exactly 24 characters '-': one
  character shorter than the title above it, which has 25.
\<close>

theorem separator_width:
  "(let ls = lines_of (snd (main v [])) in
     ls ! 1 = replicate 24 (CHR ''-'') \<and> length (ls ! 1) = 24 \<and>
     length (ls ! 0) = 25 \<and> length (ls ! 1) + 1 = length (ls ! 0))"
proof -
  define rest where "rest = ''Version: '' @ PROJECT_VERSION v @ [newline]
      @ ''Major: '' @ show_int (PROJECT_VERSION_MAJOR v) @ [newline]
      @ ''Minor: '' @ show_int (PROJECT_VERSION_MINOR v) @ [newline]
      @ ''Patch: '' @ show_int (PROJECT_VERSION_PATCH v) @ [newline]"
  have out: "snd (main v []) =
      ''Basic Example Application'' @ newline # ''------------------------'' @ newline # rest"
    by (simp add: main_unfolded rest_def)
  have t: "newline \<notin> set ''Basic Example Application''"
    and s: "newline \<notin> set ''------------------------''"
    by (simp_all add: newline_def)
  have "lines_of (snd (main v [])) =
      ''Basic Example Application'' # ''------------------------'' # lines_of rest"
    unfolding out by (simp only: lines_of_line [OF t] lines_of_line [OF s])
  moreover have "replicate 24 (CHR ''-'') = ''------------------------''"
    by (simp add: numeral_eq_Suc)
  ultimately show ?thesis
    by (simp add: Let_def)
qed

text \<open>
  C10. The Version line carries the display string as supplied, whatever it is, and is
  not rebuilt from the numbers: there is a descriptor whose display string is not the
  three numbers, dotted, and whose Version line disagrees with its Major, Minor and Patch
  lines.
\<close>

theorem version_line_verbatim:
  "snd (main (v\<lparr>PROJECT_VERSION := s\<rparr>) c) =
     (c @ ''Basic Example Application'' @ [newline] @ ''------------------------'' @ [newline]
        @ ''Version: '') @ s @ ([newline]
        @ ''Major: '' @ show_int (PROJECT_VERSION_MAJOR v) @ [newline]
        @ ''Minor: '' @ show_int (PROJECT_VERSION_MINOR v) @ [newline]
        @ ''Patch: '' @ show_int (PROJECT_VERSION_PATCH v) @ [newline]) \<and>
   (\<exists>w. \<not> consistent w \<and>
     (let ls = lines_of (snd (main w [])) in
        ls ! 2 = ''Version: '' @ PROJECT_VERSION w \<and>
        split_on (CHR ''.'') (drop 9 (ls ! 2)) \<noteq>
          [drop 7 (ls ! 3), drop 7 (ls ! 4), drop 7 (ls ! 5)]))"
proof
  show "snd (main (v\<lparr>PROJECT_VERSION := s\<rparr>) c) =
     (c @ ''Basic Example Application'' @ [newline] @ ''------------------------'' @ [newline]
        @ ''Version: '') @ s @ ([newline]
        @ ''Major: '' @ show_int (PROJECT_VERSION_MAJOR v) @ [newline]
        @ ''Minor: '' @ show_int (PROJECT_VERSION_MINOR v) @ [newline]
        @ ''Patch: '' @ show_int (PROJECT_VERSION_PATCH v) @ [newline])"
    by (simp add: main_unfolded)
next
  let ?w = "\<lparr>PROJECT_VERSION = ''9.9.9'', PROJECT_VERSION_MAJOR = 1,
        PROJECT_VERSION_MINOR = 2, PROJECT_VERSION_PATCH = 3\<rparr>"
  have n: "newline \<notin> set (PROJECT_VERSION ?w)"
    by (simp add: newline_def)
  have i: "show_int 1 = ''1''" "show_int 2 = ''2''" "show_int 3 = ''3''"
    by (simp_all add: show_int_def show_nat_digit digit_char_def)
  have "\<not> consistent ?w"
    by (simp add: consistent_def dotted_def i)
  moreover have "(let ls = lines_of (snd (main ?w [])) in
        ls ! 2 = ''Version: '' @ PROJECT_VERSION ?w \<and>
        split_on (CHR ''.'') (drop 9 (ls ! 2)) \<noteq>
          [drop 7 (ls ! 3), drop 7 (ls ! 4), drop 7 (ls ! 5)])"
    by (simp add: main_lines [OF n] i split_on_def)
  ultimately show "\<exists>w. \<not> consistent w \<and>
     (let ls = lines_of (snd (main w [])) in
        ls ! 2 = ''Version: '' @ PROJECT_VERSION w \<and>
        split_on (CHR ''.'') (drop 9 (ls ! 2)) \<noteq>
          [drop 7 (ls ! 3), drop 7 (ls ! 4), drop 7 (ls ! 5)])"
    by blast
qed

end
